theory Spec2Isabelle
  imports Complex_Main "HOL-Library.Sublist" "HOL-Library.AList" "HOL-Library.Monad_Syntax"
begin

section \<open>Data model\<close>

text \<open>
  The module \<^verbatim>\<open>eqcorrscan/core/match_filter/family.py\<close> defines the class
  \<^verbatim>\<open>Family\<close> and the two functions \<^verbatim>\<open>_write_family\<close> and \<^verbatim>\<open>_read_family\<close>.
  Python floats and obspy's \<^verbatim>\<open>UTCDateTime\<close> (seconds since the epoch) are read as
  real numbers; floating-point rounding is not part of the model. Objects are values and
  \<^verbatim>\<open>copy.deepcopy\<close> is the identity; where the outcome of a call depends on two names
  standing for one list object, the sharing is an argument of the model.
\<close>

datatype error =
    NotImplementedError string
  | IndexError
  | AttributeError
  | TypeError
  | ValueError

record pick =
  pick_time :: real
  pick_chan :: "string \<times> string"

record event =
  resource_id :: string
  picks :: "pick list"
  origin_estimated :: bool

record trace =
  station :: string
  channel :: string
  starttime :: real
  samples :: "real list"

text \<open>
  Modelled from the spec: the class \<^verbatim>\<open>Template\<close> is imported, not defined in this module.
  Its identity key is its name; it carries a reference waveform, a pre-pick offset and
  processing parameters, and two templates are equal only if all of these match, which
  is equality of the record.
\<close>

record template =
  name :: string
  st :: "trace list"
  prepick :: real
  lowcut :: real
  highcut :: real
  samp_rate :: real

text \<open>
  Modelled from the spec: the class \<^verbatim>\<open>Detection\<close> is imported from
  \<^verbatim>\<open>eqcorrscan.core.match_filter.detection\<close>. Its fields are those the spec's data model
  lists; the key \<^verbatim>\<open>id\<close> of the Python object is the field \<open>det_id\<close> here.
\<close>

record detection =
  template_name :: string
  detect_time :: real
  no_chans :: int
  detect_val :: real
  threshold :: real
  typeofdet :: string
  threshold_type :: string
  threshold_input :: real
  chans :: "(string \<times> string) list option"
  event :: "event option"
  det_id :: string

text \<open>
  Modelled from the spec: \<^verbatim>\<open>Detection.__eq__\<close> compares all fields, with a numeric
  tolerance on the float fields used for thresholds. The tolerance is a parameter.
\<close>

definition Detection_eq :: "real \<Rightarrow> detection \<Rightarrow> detection \<Rightarrow> bool" where
  "Detection_eq tol a b =
     (template_name a = template_name b \<and> detect_time a = detect_time b \<and>
      no_chans a = no_chans b \<and>
      \<bar>detect_val a - detect_val b\<bar> \<le> tol \<and>
      \<bar>threshold a - threshold b\<bar> \<le> tol \<and>
      typeofdet a = typeofdet b \<and> threshold_type a = threshold_type b \<and>
      \<bar>threshold_input a - threshold_input b\<bar> \<le> tol \<and>
      chans a = chans b \<and> event a = event b \<and> det_id a = det_id b)"

text \<open>
  Modelled from the spec: \<^verbatim>\<open>get_catalog\<close> is imported from the detection module. The
  derived catalog is the ordered sequence of the event records of the Detections; the
  event of a Detection is optional, and a Detection without one contributes nothing.
\<close>

definition get_catalog :: "detection list \<Rightarrow> event list" where
  "get_catalog ds = List.map_filter event ds"

subsection \<open>The class Family\<close>

text \<open>
  \<open>catalog_cache\<close> is the private attribute \<^verbatim>\<open>__catalog\<close> (an obspy Catalog, read as the
  list of its events).
\<close>

record family =
  template :: template
  detections :: "detection list"
  catalog_cache :: "event list"

text \<open>The \<^verbatim>\<open>detections\<close> argument of the constructor: None, one Detection, or a list.\<close>

datatype dets_arg = NoDets | OneDet detection | DetList "detection list"

text \<open>
  What \<^verbatim>\<open>+=\<close>, \<^verbatim>\<open>+\<close> and \<^verbatim>\<open>append\<close> may be given. A Family operand comes with the answer to
  whether its \<^verbatim>\<open>detections\<close> attribute is the very list object of the receiver's (the
  operand is the receiver itself, or both Families were built from one list).
\<close>

datatype operand = OFamily family bool | ODetection detection | OOther

definition catalog_warning :: string where
  "catalog_warning =
     ''Setting catalog directly is no-longer supported, now generated from detections.''"

text \<open>
  \<^verbatim>\<open>isinstance(detections, Detection)\<close> wraps a single Detection in a list, and
  \<^verbatim>\<open>detections or []\<close> replaces None by the empty list.
\<close>

definition dets_of_arg :: "dets_arg \<Rightarrow> detection list" where
  "dets_of_arg a = (case a of NoDets \<Rightarrow> [] | OneDet d \<Rightarrow> [d] | DetList l \<Rightarrow> l)"

text \<open>The object \<^verbatim>\<open>__init__\<close> builds.\<close>

definition Family_new :: "template \<Rightarrow> dets_arg \<Rightarrow> family" where
  "Family_new t a =
     \<lparr>template = t, detections = dets_of_arg a,
      catalog_cache = get_catalog (dets_of_arg a)\<rparr>"

text \<open>
  \<^verbatim>\<open>__init__(template, detections=None, catalog=None)\<close>: no statement of it raises. A
  truthy \<^verbatim>\<open>catalog\<close> argument (a non-empty catalog) is answered by a logged warning. The
  result is the new object and the warnings logged.
\<close>

definition Family_init ::
  "template \<Rightarrow> dets_arg \<Rightarrow> event list option \<Rightarrow> error + (family \<times> string list)" where
  "Family_init t a c =
     Inr (Family_new t a,
          (case c of None \<Rightarrow> [] | Some evs \<Rightarrow> if evs \<noteq> [] then [catalog_warning] else []))"

text \<open>
  The property \<^verbatim>\<open>catalog\<close>: the value read, and the object after the read (the cache is
  replaced when its length differs from the number of detections).
\<close>

definition Family_catalog :: "family \<Rightarrow> event list \<times> family" where
  "Family_catalog f =
     (if length (catalog_cache f) \<noteq> length (detections f)
      then (get_catalog (detections f), f\<lparr>catalog_cache := get_catalog (detections f)\<rparr>)
      else (catalog_cache f, f))"

text \<open>The setter of the property \<^verbatim>\<open>catalog\<close>.\<close>

definition Family_catalog_setter :: "family \<Rightarrow> event list \<Rightarrow> error + family" where
  "Family_catalog_setter f c =
     Inl (NotImplementedError ''Setting catalog directly is no-longer supported'')"

definition Family_copy :: "family \<Rightarrow> family" where
  "Family_copy f = f"

text \<open>
  A method call answers with the object it returns and with the receiver as the call
  leaves it. \<^verbatim>\<open>__iadd__\<close> returns the receiver itself. With a Family operand,
  \<^verbatim>\<open>self.detections.extend(other.detections)\<close> runs before
  \<^verbatim>\<open>get_catalog(other.detections)\<close> is evaluated: when the operand shares the receiver's
  list, \<^verbatim>\<open>other.detections\<close> is by then the extended list, and the catalog of the extended
  list is what the cache grows by.
\<close>

definition Family_iadd :: "family \<Rightarrow> operand \<Rightarrow> error + (family \<times> family)" where
  "Family_iadd self other =
     (case other of
        OFamily b shared \<Rightarrow>
          if template b = template self
          then (let extended = detections self @ detections b;
                    s = self\<lparr>detections := extended,
                              catalog_cache := catalog_cache self @
                                get_catalog (if shared then extended else detections b)\<rparr>
                in Inr (s, s))
          else Inl (NotImplementedError ''Templates do not match'')
      | ODetection d \<Rightarrow>
          if template_name d = name (template self)
          then (let s = self\<lparr>detections := detections self @ [d],
                              catalog_cache := catalog_cache self @ get_catalog [d]\<rparr>
                in Inr (s, s))
          else Inl (NotImplementedError ''Templates do not match'')
      | OOther \<Rightarrow>
          Inl (NotImplementedError ''Can only extend with a Detection or Family object.''))"

text \<open>
  \<^verbatim>\<open>__add__\<close> is \<^verbatim>\<open>self.copy().__iadd__(other)\<close>: the copy is extended and returned,
  the receiver is not touched. The list of the deep copy is a new object, which no
  operand shares.
\<close>

definition unshared :: "operand \<Rightarrow> operand" where
  "unshared other = (case other of OFamily b shared \<Rightarrow> OFamily b False | _ \<Rightarrow> other)"

definition Family_add :: "family \<Rightarrow> operand \<Rightarrow> error + (family \<times> family)" where
  "Family_add self other =
     (case Family_iadd (Family_copy self) (unshared other) of
        Inl e \<Rightarrow> Inl e
      | Inr (r, c) \<Rightarrow> Inr (r, self))"

text \<open>\<^verbatim>\<open>append\<close> is \<^verbatim>\<open>return self.__add__(other)\<close>.\<close>

definition Family_append :: "family \<Rightarrow> operand \<Rightarrow> error + (family \<times> family)" where
  "Family_append self other = Family_add self other"

text \<open>
  \<^verbatim>\<open>sort\<close>: \<^verbatim>\<open>sorted(self.detections, key=lambda d: d.detect_time)\<close>, a stable sort, as
  \<open>sort_key\<close> is.
\<close>

definition Family_sort :: "family \<Rightarrow> family" where
  "Family_sort f = f\<lparr>detections := sort_key detect_time (detections f)\<rparr>"

text \<open>
  \<^verbatim>\<open>__eq__\<close>: the answer, and both operands as the comparison leaves them. The two
  arguments of \<^verbatim>\<open>zip\<close> are evaluated before the loop starts, so both operands are sorted
  even when the loop returns at its first pair. \<open>Family_eq_catalog\<close> is the final
  comparison \<^verbatim>\<open>len(self.catalog) != len(other.catalog)\<close>, which reads both properties.
\<close>

definition Family_eq_catalog :: "family \<Rightarrow> family \<Rightarrow> bool \<times> family \<times> family" where
  "Family_eq_catalog s ot =
     (let (c1, s') = Family_catalog s; (c2, ot') = Family_catalog ot
      in (length c1 = length c2, s', ot'))"

definition Family_eq :: "real \<Rightarrow> family \<Rightarrow> family \<Rightarrow> bool \<times> family \<times> family" where
  "Family_eq tol self other =
     (if template self \<noteq> template other then (False, self, other)
      else if length (detections self) \<noteq> length (detections other) then (False, self, other)
      else if length (detections self) \<noteq> 0 \<and> length (detections other) \<noteq> 0
      then (let s = Family_sort self; ot = Family_sort other
            in if list_all (\<lambda>(d, e). Detection_eq tol d e) (zip (detections s) (detections ot))
               then Family_eq_catalog s ot
               else (False, s, ot))
      else Family_eq_catalog self other)"

definition Family_ne :: "real \<Rightarrow> family \<Rightarrow> family \<Rightarrow> bool \<times> family \<times> family" where
  "Family_ne tol self other =
     (case Family_eq tol self other of (r, s, ot) \<Rightarrow> (\<not> r, s, ot))"

text \<open>The invariant of the spec's data model.\<close>

definition family_inv :: "family \<Rightarrow> bool" where
  "family_inv f = list_all (\<lambda>d. template_name d = name (template f)) (detections f)"

subsection \<open>Family.lag_calc\<close>

text \<open>
  \<^verbatim>\<open>lag_calc\<close> prepares the stream, calls the pick refiner \<^verbatim>\<open>xcorr_pick_family\<close> of
  \<^verbatim>\<open>eqcorrscan.core.lag_calc\<close> and writes its picks back. The refiner is not part of
  this module: its answer, the dictionary \<^verbatim>\<open>picked_dict\<close> from detection ids to events,
  is an argument here, as the list of its items in the order of iteration.

  \<^verbatim>\<open>pick.time += self.template.prepick\<close>, for every pick of the event.
\<close>

definition correct_picks :: "real \<Rightarrow> event \<Rightarrow> pick list" where
  "correct_picks pp ev = map (\<lambda>p. p\<lparr>pick_time := pick_time p + pp\<rparr>) (picks ev)"

text \<open>
  \<^verbatim>\<open>d = [d for d in self.detections if d.id == detection_id][0]\<close> followed by
  \<^verbatim>\<open>d.event.picks = event.picks\<close>: the first Detection with that id gets the picks. No
  Detection with the id is an \<^verbatim>\<open>IndexError\<close>; a first Detection without an event is an
  \<^verbatim>\<open>AttributeError\<close>.
\<close>

fun set_picks :: "string \<Rightarrow> pick list \<Rightarrow> detection list \<Rightarrow> error + detection list" where
  "set_picks detection_id ps [] = Inl IndexError"
| "set_picks detection_id ps (d # ds) =
     (if det_id d = detection_id
      then (case event d of
              None \<Rightarrow> Inl AttributeError
            | Some e \<Rightarrow> Inr (d\<lparr>event := Some (e\<lparr>picks := ps\<rparr>)\<rparr> # ds))
      else (case set_picks detection_id ps ds of
              Inl err \<Rightarrow> Inl err
            | Inr ds' \<Rightarrow> Inr (d # ds')))"

text \<open>When \<open>set_picks\<close> returns: the first Detection with the id carries an event.\<close>

definition pickable :: "detection list \<Rightarrow> string \<Rightarrow> bool" where
  "pickable ds detection_id =
     (case find (\<lambda>d. det_id d = detection_id) ds of
        None \<Rightarrow> False
      | Some d \<Rightarrow> event d \<noteq> None)"

text \<open>The loop \<^verbatim>\<open>for detection_id, event in picked_dict.items()\<close>.\<close>

fun update_picks :: "real \<Rightarrow> detection list \<Rightarrow> (string \<times> event) list \<Rightarrow> error + detection list" where
  "update_picks pp ds [] = Inr ds"
| "update_picks pp ds ((detection_id, ev) # rest) =
     (case set_picks detection_id (correct_picks pp ev) ds of
        Inl err \<Rightarrow> Inl err
      | Inr ds' \<Rightarrow> update_picks pp ds' rest)"

text \<open>
  The call returns \<^verbatim>\<open>catalog_out\<close>, the catalog of the events of \<^verbatim>\<open>picked_dict\<close>, whose
  picks the loop has corrected in place; the receiver is left with the updated
  Detections. Only the Detections of the receiver are followed here, not the events its
  catalog cache shares with them.
\<close>

definition Family_lag_calc ::
  "family \<Rightarrow> (string \<times> event) list \<Rightarrow> error + (event list \<times> family)" where
  "Family_lag_calc self picked_dict =
     (case update_picks (prepick (template self)) (detections self) picked_dict of
        Inl err \<Rightarrow> Inl err
      | Inr ds \<Rightarrow>
          Inr (map (\<lambda>(detection_id, ev).
                      ev\<lparr>picks := correct_picks (prepick (template self)) ev\<rparr>) picked_dict,
               self\<lparr>detections := ds\<rparr>))"

subsection \<open>Python strings\<close>

text \<open>
  A string is the list of its code points, read as characters below 256; writing the file
  and decoding it are the identity on them. \<^verbatim>\<open>str.isspace\<close> holds of these characters:
  tab, line feed, vertical tab, form feed, carriage return, the separators
  \<^verbatim>\<open>\x1c\<close> to \<^verbatim>\<open>\x1f\<close>, space, \<^verbatim>\<open>\x85\<close> and \<^verbatim>\<open>\xa0\<close>.
\<close>

definition py_isspace :: "char \<Rightarrow> bool" where
  "py_isspace c =
     (c \<in> set [CHR 0x09, CHR 0x0A, CHR 0x0B, CHR 0x0C, CHR 0x0D, CHR 0x1C, CHR 0x1D,
               CHR 0x1E, CHR 0x1F, CHR 0x20, CHR 0x85, CHR 0xA0])"

text \<open>The line boundaries of \<^verbatim>\<open>str.splitlines\<close>.\<close>

definition py_linebreak :: "char \<Rightarrow> bool" where
  "py_linebreak c =
     (c \<in> set [CHR 0x0A, CHR 0x0B, CHR 0x0C, CHR 0x0D, CHR 0x1C, CHR 0x1D, CHR 0x1E, CHR 0x85])"

definition py_rstrip :: "string \<Rightarrow> string" where
  "py_rstrip s = rev (dropWhile py_isspace (rev s))"

definition py_strip :: "string \<Rightarrow> string" where
  "py_strip s = dropWhile py_isspace (py_rstrip s)"

text \<open>\<^verbatim>\<open>s.rstrip(chars)\<close>.\<close>

definition py_rstrip_chars :: "string \<Rightarrow> string \<Rightarrow> string" where
  "py_rstrip_chars chars s = rev (dropWhile (\<lambda>c. c \<in> set chars) (rev s))"

text \<open>
  \<^verbatim>\<open>s.split(sep)\<close> for a separator that is not empty (the module passes the literals
  \<^verbatim>\<open>';'\<close>, \<^verbatim>\<open>': '\<close> and \<^verbatim>\<open>'/'\<close>): the occurrences of \<open>sep\<close> are found from the left and do
  not overlap. The result is never the empty list.
\<close>

function py_split :: "string \<Rightarrow> string \<Rightarrow> string list" where
  "py_split sep s =
     (if sep = [] \<or> s = [] then [s]
      else if take (length sep) s = sep then [] # py_split sep (drop (length sep) s)
      else (case py_split sep (tl s) of
              [] \<Rightarrow> [[hd s]]
            | w # ws \<Rightarrow> (hd s # w) # ws))"
  by pat_completeness auto
termination
  by (relation "measure (\<lambda>(sep, s). length s)") auto

text \<open>
  \<^verbatim>\<open>s.splitlines()\<close>: a carriage return followed by a line feed is one boundary, and a
  boundary at the end of the text opens no further line.
\<close>

fun py_splitlines :: "string \<Rightarrow> string list" where
  "py_splitlines [] = []"
| "py_splitlines (c # cs) =
     (if py_linebreak c
      then (case cs of
              d # ds \<Rightarrow> if c = CHR 0x0D \<and> d = CHR 0x0A then [] # py_splitlines ds
                         else [] # py_splitlines cs
            | [] \<Rightarrow> [[]])
      else (case py_splitlines cs of
              [] \<Rightarrow> [[c]]
            | l # ls \<Rightarrow> (c # l) # ls))"

text \<open>\<^verbatim>\<open>str(n)\<close> for an integer: its decimal digits.\<close>

definition digit_char :: "nat \<Rightarrow> char" where
  "digit_char n = char_of (48 + n)"

function str_nat :: "nat \<Rightarrow> string" where
  "str_nat n = (if n < 10 then [digit_char n] else str_nat (n div 10) @ [digit_char (n mod 10)])"
  by pat_completeness auto
termination
  by (relation "measure id") auto

definition str_int :: "int \<Rightarrow> string" where
  "str_int i = (if i < 0 then CHR ''-'' # str_nat (nat (- i)) else str_nat (nat i))"

text \<open>\<^verbatim>\<open>int(x)\<close> for a float: truncation towards zero.\<close>

definition py_int :: "real \<Rightarrow> int" where
  "py_int x = (if 0 \<le> x then \<lfloor>x\<rfloor> else \<lceil>x\<rceil>)"

subsection \<open>The library functions the flat format goes through\<close>

text \<open>
  \<^verbatim>\<open>format(x, '.32f')\<close>, \<^verbatim>\<open>float(s)\<close>, \<^verbatim>\<open>str\<close> and the constructor of \<^verbatim>\<open>UTCDateTime\<close>,
  \<^verbatim>\<open>str\<close> of a list of channels and \<^verbatim>\<open>ast.literal_eval\<close> belong to Python and obspy,
  and the id a Detection derives when it is given none belongs to the detection module.
  They are parameters: a conversion from text answers \<open>None\<close> where the library raises
  (the error is written \<^verbatim>\<open>ValueError\<close> for all of them). Infinities and NaN are not
  values of the model.
\<close>

record library =
  format_32f :: "real \<Rightarrow> string"
  float_of_text :: "string \<Rightarrow> real option"
  str_utc :: "real \<Rightarrow> string"
  utc_of_text :: "string \<Rightarrow> real option"
  str_chans :: "(string \<times> string) list \<Rightarrow> string"
  literal_eval :: "string \<Rightarrow> (string \<times> string) list option option"
  derived_id :: "string \<Rightarrow> real \<Rightarrow> string"

subsection \<open>The function \<^verbatim>\<open>_write_family\<close>\<close>

text \<open>
  The items of \<^verbatim>\<open>detection.__dict__\<close> with the text the writer gives each value: the
  identifier of the event when there is one, \<^verbatim>\<open>format(v, '.32f').rstrip('0')\<close> for the
  keys \<^verbatim>\<open>threshold\<close>, \<^verbatim>\<open>detect_val\<close> and \<^verbatim>\<open>threshold_input\<close>, and \<^verbatim>\<open>str(v)\<close> for every
  other key (\<^verbatim>\<open>'None'\<close> for an absent event or channel list). Modelled from the spec: the
  order of the keys is the order in which the spec's data model lists the fields.
\<close>

definition field_texts :: "library \<Rightarrow> detection \<Rightarrow> (string \<times> string) list" where
  "field_texts lib d =
     [(''template_name'', template_name d),
      (''detect_time'', str_utc lib (detect_time d)),
      (''no_chans'', str_int (no_chans d)),
      (''detect_val'', py_rstrip_chars ''0'' (format_32f lib (detect_val d))),
      (''threshold'', py_rstrip_chars ''0'' (format_32f lib (threshold d))),
      (''threshold_type'', threshold_type d),
      (''threshold_input'', py_rstrip_chars ''0'' (format_32f lib (threshold_input d))),
      (''typeofdet'', typeofdet d),
      (''event'', case event d of None \<Rightarrow> ''None'' | Some e \<Rightarrow> resource_id e),
      (''chans'', case chans d of None \<Rightarrow> ''None'' | Some c \<Rightarrow> str_chans lib c),
      (''id'', det_id d)]"

text \<open>\<^verbatim>\<open>det_str += key + ': ' + value + '; '\<close>, from the empty string.\<close>

definition det_str :: "(string \<times> string) list \<Rightarrow> string" where
  "det_str kvs = concat (map (\<lambda>(key, v). key @ '': '' @ v @ ''; '') kvs)"

text \<open>The text of the file: \<^verbatim>\<open>f.write(det_str + '\n')\<close> for every Detection.\<close>

definition write_family :: "library \<Rightarrow> family \<Rightarrow> string" where
  "write_family lib f =
     concat (map (\<lambda>d. det_str (field_texts lib d) @ [CHR 0x0A]) (detections f))"

subsection \<open>The function \<^verbatim>\<open>_read_family\<close>\<close>

text \<open>The values the reader stores in \<^verbatim>\<open>det_dict\<close>.\<close>

datatype pyval =
    PStr string
  | PInt int
  | PFloat real
  | PTime real
  | PChans "(string \<times> string) list option"
  | PEvent event

text \<open>
  Modelled from the spec: the constructor \<^verbatim>\<open>Detection(**det_dict)\<close> belongs to the
  detection module. It stores the fields it is given; the channel list and the event are
  optional, and the id is derived when none is given. A keyword it does not know, a
  missing field or a value of another type is a \<^verbatim>\<open>TypeError\<close>.
\<close>

definition detection_keys :: "string list" where
  "detection_keys =
     [''template_name'', ''detect_time'', ''no_chans'', ''detect_val'', ''threshold'',
      ''threshold_type'', ''threshold_input'', ''typeofdet'', ''event'', ''chans'', ''id'']"

definition kw_str :: "(string \<times> pyval) list \<Rightarrow> string \<Rightarrow> string option" where
  "kw_str kw k = (case map_of kw k of Some (PStr s) \<Rightarrow> Some s | _ \<Rightarrow> None)"

definition kw_float :: "(string \<times> pyval) list \<Rightarrow> string \<Rightarrow> real option" where
  "kw_float kw k = (case map_of kw k of Some (PFloat x) \<Rightarrow> Some x | _ \<Rightarrow> None)"

definition kw_int :: "(string \<times> pyval) list \<Rightarrow> string \<Rightarrow> int option" where
  "kw_int kw k = (case map_of kw k of Some (PInt i) \<Rightarrow> Some i | _ \<Rightarrow> None)"

definition kw_time :: "(string \<times> pyval) list \<Rightarrow> string \<Rightarrow> real option" where
  "kw_time kw k = (case map_of kw k of Some (PTime t) \<Rightarrow> Some t | _ \<Rightarrow> None)"

definition Detection_fields :: "library \<Rightarrow> (string \<times> pyval) list \<Rightarrow> detection option" where
  "Detection_fields lib kw =
     do {
       tn \<leftarrow> kw_str kw ''template_name'';
       t \<leftarrow> kw_time kw ''detect_time'';
       n \<leftarrow> kw_int kw ''no_chans'';
       dv \<leftarrow> kw_float kw ''detect_val'';
       th \<leftarrow> kw_float kw ''threshold'';
       tt \<leftarrow> kw_str kw ''threshold_type'';
       ti \<leftarrow> kw_float kw ''threshold_input'';
       ty \<leftarrow> kw_str kw ''typeofdet'';
       Some \<lparr>template_name = tn, detect_time = t, no_chans = n, detect_val = dv,
             threshold = th, typeofdet = ty, threshold_type = tt, threshold_input = ti,
             chans = (case map_of kw ''chans'' of Some (PChans c) \<Rightarrow> c | _ \<Rightarrow> None),
             event = (case map_of kw ''event'' of Some (PEvent e) \<Rightarrow> Some e | _ \<Rightarrow> None),
             det_id = (case kw_str kw ''id'' of Some i \<Rightarrow> i | None \<Rightarrow> derived_id lib tn t)\<rparr>
     }"

definition Detection_init :: "library \<Rightarrow> (string \<times> pyval) list \<Rightarrow> error + detection" where
  "Detection_init lib kw =
     (if \<not> list_all (\<lambda>k. k \<in> set detection_keys) (map fst kw) then Inl TypeError
      else (case Detection_fields lib kw of
              None \<Rightarrow> Inl TypeError
            | Some d \<Rightarrow> Inr d))"

text \<open>
  Modelled from the spec: \<^verbatim>\<open>Detection._calculate_event\<close> belongs to the detection module.
  It synthesizes a fresh event from the template: one pick at the detection time for
  every trace of the template's waveform, with the pre-pick offset applied to the pick
  times when \<^verbatim>\<open>correct_prepick\<close> is set, and with the flag that says whether the origin
  is estimated.
\<close>

definition calculate_event :: "template \<Rightarrow> bool \<Rightarrow> bool \<Rightarrow> detection \<Rightarrow> detection" where
  "calculate_event tmpl estimate_origin correct_prepick d =
     d\<lparr>event := Some
        \<lparr>resource_id = det_id d,
         picks = map (\<lambda>tr. \<lparr>pick_time = detect_time d +
                                 (if correct_prepick then prepick tmpl else 0),
                             pick_chan = (station tr, channel tr)\<rparr>) (st tmpl),
         origin_estimated = estimate_origin\<rparr>\<rparr>"

text \<open>
  The key and the value of one \<^verbatim>\<open>key_pair\<close>: \<^verbatim>\<open>key_pair.split(': ')[0].strip()\<close> and
  \<^verbatim>\<open>key_pair.split(': ')[-1].strip()\<close>.
\<close>

definition pair_key :: "string \<Rightarrow> string" where
  "pair_key key_pair = py_strip (hd (py_split '': '' key_pair))"

definition pair_value :: "string \<Rightarrow> string" where
  "pair_value key_pair = py_strip (last (py_split '': '' key_pair))"

text \<open>
  The branches of the inner loop on \<^verbatim>\<open>key\<close> and \<^verbatim>\<open>value\<close>, with \<^verbatim>\<open>det_dict\<close> and
  \<^verbatim>\<open>gen_event\<close> as the state. \<^verbatim>\<open>det_dict.update\<close> is \<open>AList.update\<close>, and \<^verbatim>\<open>continue\<close>
  leaves \<^verbatim>\<open>det_dict\<close> as it is. The comprehension over \<^verbatim>\<open>all_cat\<close> followed by \<^verbatim>\<open>[0]\<close>
  is an \<^verbatim>\<open>IndexError\<close> when no event of the catalog has the identifier.
\<close>

definition read_item ::
  "library \<Rightarrow> event list \<Rightarrow> string \<Rightarrow> string \<Rightarrow> (string \<times> pyval) list \<times> bool \<Rightarrow>
   error + ((string \<times> pyval) list \<times> bool)" where
  "read_item lib all_cat key v state =
     (let det_dict = fst state; gen_event = snd state in
      if key = ''event'' then
        (if length all_cat = 0 then Inr (det_dict, True)
         else (case filter (\<lambda>e. last (py_split ''/'' (resource_id e)) = v) all_cat of
                 [] \<Rightarrow> Inl IndexError
               | el # _ \<Rightarrow> Inr (AList.update ''event'' (PEvent el) det_dict, gen_event)))
      else if key = ''detect_time'' then
        (case utc_of_text lib v of
           None \<Rightarrow> Inl ValueError
         | Some t \<Rightarrow> Inr (AList.update ''detect_time'' (PTime t) det_dict, gen_event))
      else if key = ''chans'' then
        (case literal_eval lib v of
           None \<Rightarrow> Inl ValueError
         | Some c \<Rightarrow> Inr (AList.update ''chans'' (PChans c) det_dict, gen_event))
      else if key \<in> set [''template_name'', ''typeofdet'', ''id'', ''threshold_type''] then
        Inr (AList.update key (PStr v) det_dict, gen_event)
      else if key = ''no_chans'' then
        (case float_of_text lib v of
           None \<Rightarrow> Inl ValueError
         | Some x \<Rightarrow> Inr (AList.update key (PInt (py_int x)) det_dict, gen_event))
      else if length key = 0 then Inr (det_dict, gen_event)
      else
        (case float_of_text lib v of
           None \<Rightarrow> Inl ValueError
         | Some x \<Rightarrow> Inr (AList.update key (PFloat x) det_dict, gen_event)))"

text \<open>The body of the inner loop: the key and the value of the pair, then the branches.\<close>

definition read_pair ::
  "library \<Rightarrow> event list \<Rightarrow> string \<Rightarrow> (string \<times> pyval) list \<times> bool \<Rightarrow>
   error + ((string \<times> pyval) list \<times> bool)" where
  "read_pair lib all_cat key_pair state =
     read_item lib all_cat (pair_key key_pair) (pair_value key_pair) state"

text \<open>The inner loop \<^verbatim>\<open>for key_pair in line.rstrip().split(';')\<close>.\<close>

fun read_pairs ::
  "library \<Rightarrow> event list \<Rightarrow> string list \<Rightarrow> (string \<times> pyval) list \<times> bool \<Rightarrow>
   error + ((string \<times> pyval) list \<times> bool)" where
  "read_pairs lib all_cat [] state = Inr state"
| "read_pairs lib all_cat (key_pair # rest) state =
     (case read_pair lib all_cat key_pair state of
        Inl err \<Rightarrow> Inl err
      | Inr state' \<Rightarrow> read_pairs lib all_cat rest state')"

text \<open>
  One line: \<^verbatim>\<open>line.rstrip().split(';')\<close>, the loop, then \<^verbatim>\<open>Detection(**det_dict)\<close> and,
  when \<^verbatim>\<open>gen_event\<close> is set, \<^verbatim>\<open>_calculate_event\<close> with \<^verbatim>\<open>correct_prepick=True\<close>.
\<close>

definition read_line ::
  "library \<Rightarrow> event list \<Rightarrow> template \<Rightarrow> bool \<Rightarrow> string \<Rightarrow> error + detection" where
  "read_line lib all_cat tmpl estimate_origin line =
     (case read_pairs lib all_cat (py_split '';'' (py_rstrip line)) ([], False) of
        Inl err \<Rightarrow> Inl err
      | Inr (det_dict, gen_event) \<Rightarrow>
          (case Detection_init lib det_dict of
             Inl err \<Rightarrow> Inl err
           | Inr d \<Rightarrow>
               Inr (if gen_event then calculate_event tmpl estimate_origin True d else d)))"

text \<open>The outer loop: the first line that raises ends the read.\<close>

fun read_lines ::
  "library \<Rightarrow> event list \<Rightarrow> template \<Rightarrow> bool \<Rightarrow> string list \<Rightarrow> error + detection list" where
  "read_lines lib all_cat tmpl estimate_origin [] = Inr []"
| "read_lines lib all_cat tmpl estimate_origin (line # rest) =
     (case read_line lib all_cat tmpl estimate_origin line of
        Inl err \<Rightarrow> Inl err
      | Inr d \<Rightarrow>
          (case read_lines lib all_cat tmpl estimate_origin rest of
             Inl err \<Rightarrow> Inl err
           | Inr ds \<Rightarrow> Inr (d # ds)))"

text \<open>
  \<^verbatim>\<open>_read_family(fname, all_cat, template, encoding, estimate_origin)\<close>, on the
  decoded content of the file.
\<close>

definition read_family ::
  "library \<Rightarrow> string \<Rightarrow> event list \<Rightarrow> template \<Rightarrow> bool \<Rightarrow> error + detection list" where
  "read_family lib content all_cat tmpl estimate_origin =
     read_lines lib all_cat tmpl estimate_origin (py_splitlines content)"

subsection \<open>Texts that survive the flat format\<close>











subsection \<open>Example objects\<close>

text \<open>The objects of the module's doctests, used to evaluate the definitions.\<close>

definition template_a :: template where
  "template_a = \<lparr>name = ''a'', st = [], prepick = 0, lowcut = 2, highcut = 9, samp_rate = 50\<rparr>"

definition template_b :: template where
  "template_b = \<lparr>name = ''b'', st = [], prepick = 0, lowcut = 2, highcut = 9, samp_rate = 50\<rparr>"

definition det_a0 :: detection where
  "det_a0 = \<lparr>template_name = ''a'', detect_time = 0, no_chans = 8, detect_val = 4.2,
     threshold = 1.2, typeofdet = ''corr'', threshold_type = ''MAD'', threshold_input = 8,
     chans = None, event = None, det_id = ''a_19700101_000000000000''\<rparr>"

definition det_a10 :: detection where
  "det_a10 = \<lparr>template_name = ''a'', detect_time = 10, no_chans = 8, detect_val = 4.5,
     threshold = 1.2, typeofdet = ''corr'', threshold_type = ''MAD'', threshold_input = 8,
     chans = None, event = None, det_id = ''a_19700101_000010000000''\<rparr>"

definition det_b0 :: detection where
  "det_b0 = \<lparr>template_name = ''b'', detect_time = 0, no_chans = 5, detect_val = 2.5,
     threshold = 1.23, typeofdet = ''corr'', threshold_type = ''MAD'', threshold_input = 8,
     chans = None, event = None, det_id = ''b_19700101_000000000000''\<rparr>"

definition det_a0_alt :: detection where
  "det_a0_alt = det_a0\<lparr>no_chans := 5\<rparr>"

definition event_0 :: event where
  "event_0 = \<lparr>resource_id = ''a_19700101_000000000000'', picks = [], origin_estimated = False\<rparr>"

definition event_10 :: event where
  "event_10 = \<lparr>resource_id = ''a_19700101_000010000000'', picks = [], origin_estimated = False\<rparr>"

definition det_e0 :: detection where
  "det_e0 = det_a0\<lparr>event := Some event_0\<rparr>"

definition det_e10 :: detection where
  "det_e10 = det_a10\<lparr>event := Some event_10\<rparr>"

definition template_p :: template where
  "template_p = template_a\<lparr>prepick := 0.5\<rparr>"

definition pick_z :: pick where
  "pick_z = \<lparr>pick_time = 10.25, pick_chan = (''STA'', ''EHZ'')\<rparr>"

definition event_refined :: event where
  "event_refined =
     \<lparr>resource_id = ''a_19700101_000010000000'', picks = [pick_z], origin_estimated = False\<rparr>"

text \<open>
  The library on the values of the example objects: what Python 3 and obspy answer for
  \<^verbatim>\<open>format(x, '.32f')\<close>, \<^verbatim>\<open>float(s)\<close>, \<^verbatim>\<open>str(UTCDateTime(t))\<close>, \<^verbatim>\<open>UTCDateTime(s)\<close> and
  \<^verbatim>\<open>ast.literal_eval('None')\<close>; every other argument is outside the table.
\<close>

definition lib_doctest :: library where
  "lib_doctest =
     \<lparr>format_32f = (\<lambda>x.
        if x = 4.2 then ''4.20000000000000017763568394002505''
        else if x = 4.5 then ''4.50000000000000000000000000000000''
        else if x = 1.2 then ''1.19999999999999995559107901499374''
        else if x = 8 then ''8.00000000000000000000000000000000''
        else []),
      float_of_text = (\<lambda>s.
        if s = ''4.20000000000000017763568394002505'' then Some 4.2
        else if s = ''4.5'' then Some 4.5
        else if s = ''1.19999999999999995559107901499374'' then Some 1.2
        else if s = ''8.'' then Some 8
        else if s = ''8'' then Some 8
        else None),
      str_utc = (\<lambda>t.
        if t = 0 then ''1970-01-01T00:00:00.000000Z''
        else if t = 10 then ''1970-01-01T00:00:10.000000Z''
        else []),
      utc_of_text = (\<lambda>s.
        if s = ''1970-01-01T00:00:00.000000Z'' then Some 0
        else if s = ''1970-01-01T00:00:10.000000Z'' then Some 10
        else None),
      str_chans = (\<lambda>c. if c = [] then ''[]'' else []),
      literal_eval = (\<lambda>s.
        if s = ''None'' then Some None
        else if s = ''[]'' then Some (Some [])
        else None),
      derived_id = (\<lambda>tn t. tn)\<rparr>"


definition template_s :: template where
  "template_s =
     template_a\<lparr>st := [\<lparr>station = ''STA'', channel = ''EHZ'', starttime = 0, samples = []\<rparr>],
                prepick := 0.5\<rparr>"

section \<open>Combining families\<close>

lemma Family_iadd_family:
  "Family_iadd a (OFamily b shared) =
     (if template b = template a
      then Inr (a\<lparr>detections := detections a @ detections b,
                  catalog_cache := catalog_cache a @
                    get_catalog (if shared then detections a @ detections b
                                 else detections b)\<rparr>,
                a\<lparr>detections := detections a @ detections b,
                  catalog_cache := catalog_cache a @
                    get_catalog (if shared then detections a @ detections b
                                 else detections b)\<rparr>)
      else Inl (NotImplementedError ''Templates do not match''))"
  by (simp add: Family_iadd_def Let_def)

lemma Family_iadd_detection:
  "Family_iadd a (ODetection d) =
     (if template_name d = name (template a)
      then Inr (a\<lparr>detections := detections a @ [d],
                  catalog_cache := catalog_cache a @ get_catalog [d]\<rparr>,
                a\<lparr>detections := detections a @ [d],
                  catalog_cache := catalog_cache a @ get_catalog [d]\<rparr>)
      else Inl (NotImplementedError ''Templates do not match''))"
  by (simp add: Family_iadd_def Let_def)

lemma Family_add_eq:
  "Family_add a x =
     (case Family_iadd a (unshared x) of Inl e \<Rightarrow> Inl e | Inr (r, s) \<Rightarrow> Inr (r, a))"
  by (simp add: Family_add_def Family_copy_def)

lemma unshared_simps [simp]:
  "unshared (OFamily b shared) = OFamily b False"
  "unshared (ODetection d) = ODetection d"
  "unshared OOther = OOther"
  by (simp_all add: unshared_def)

text \<open>
  Claim C1 says that \<^verbatim>\<open>f.append(x)\<close> has the same effect on \<open>f\<close> as \<^verbatim>\<open>f += x\<close>. The code
  of \<^verbatim>\<open>append\<close> calls \<^verbatim>\<open>__add__\<close>, which extends a deep copy. At the empty Family of
  template \<^verbatim>\<open>a\<close> and a Detection of template \<^verbatim>\<open>a\<close> (the second doctest of \<^verbatim>\<open>append\<close>),
  \<^verbatim>\<open>append\<close> returns a Family of one Detection and leaves the receiver empty, while
  \<^verbatim>\<open>+=\<close> leaves the receiver with one Detection.
\<close>

theorem append_leaves_receiver_unchanged:
  "Family_append (Family_new template_a NoDets) (ODetection det_a0) =
     Inr (\<lparr>template = template_a, detections = [det_a0], catalog_cache = []\<rparr>,
          \<lparr>template = template_a, detections = [], catalog_cache = []\<rparr>) \<and>
   Family_iadd (Family_new template_a NoDets) (ODetection det_a0) =
     Inr (\<lparr>template = template_a, detections = [det_a0], catalog_cache = []\<rparr>,
          \<lparr>template = template_a, detections = [det_a0], catalog_cache = []\<rparr>)"
  by (simp add: Family_append_def Family_add_eq Family_iadd_detection Family_new_def
      dets_of_arg_def get_catalog_def template_a_def det_a0_def)

text \<open>
  Claim C2: combining two Families (\<^verbatim>\<open>+=\<close> or \<^verbatim>\<open>+\<close>) whose templates are not equal raises
  \<^verbatim>\<open>NotImplementedError('Templates do not match')\<close>, in particular whenever the template
  names differ and whatever the Detections are; adding a Detection whose
  \<^verbatim>\<open>template_name\<close> is not the name of the Family's template raises the same error; and
  when the templates are equal, the Detections of \<open>b\<close> are appended to those of \<open>a\<close>.
\<close>

theorem combine_requires_matching_template:
  "(template b \<noteq> template a \<longrightarrow>
      Family_iadd a (OFamily b shared) =
        Inl (NotImplementedError ''Templates do not match'') \<and>
      Family_add a (OFamily b shared) =
        Inl (NotImplementedError ''Templates do not match'')) \<and>
   (name (template b) \<noteq> name (template a) \<longrightarrow>
      Family_iadd a (OFamily b shared) =
        Inl (NotImplementedError ''Templates do not match'') \<and>
      Family_add a (OFamily b shared) =
        Inl (NotImplementedError ''Templates do not match'')) \<and>
   (template_name d \<noteq> name (template a) \<longrightarrow>
      Family_iadd a (ODetection d) = Inl (NotImplementedError ''Templates do not match'') \<and>
      Family_add a (ODetection d) = Inl (NotImplementedError ''Templates do not match'')) \<and>
   (template b = template a \<longrightarrow>
      (\<exists>s. Family_iadd a (OFamily b shared) = Inr (s, s) \<and>
           detections s = detections a @ detections b) \<and>
      (\<exists>r. Family_add a (OFamily b shared) = Inr (r, a) \<and>
           detections r = detections a @ detections b))"
proof -
  have ne: "name (template b) \<noteq> name (template a) \<Longrightarrow> template b \<noteq> template a"
    by auto
  show ?thesis
    using ne by (auto simp add: Family_add_eq Family_iadd_family Family_iadd_detection)
qed

theorem combine_requires_matching_template_witness:
  "template (Family_new template_b NoDets) \<noteq> template (Family_new template_a NoDets) \<and>
   Family_iadd (Family_new template_a NoDets) (OFamily (Family_new template_b NoDets) False) =
     Inl (NotImplementedError ''Templates do not match'') \<and>
   Family_add (Family_new template_a NoDets) (OFamily (Family_new template_b NoDets) False) =
     Inl (NotImplementedError ''Templates do not match'') \<and>
   template_name det_b0 \<noteq> name (template (Family_new template_a NoDets)) \<and>
   Family_iadd (Family_new template_a NoDets) (ODetection det_b0) =
     Inl (NotImplementedError ''Templates do not match'') \<and>
   template (Family_new template_a (OneDet det_a10)) =
     template (Family_new template_a (OneDet det_a0)) \<and>
   (\<exists>s. Family_iadd (Family_new template_a (OneDet det_a0))
           (OFamily (Family_new template_a (OneDet det_a10)) False) = Inr (s, s) \<and>
        detections s = [det_a0, det_a10])"
  using combine_requires_matching_template
          [of "Family_new template_b NoDets" "Family_new template_a NoDets" False det_b0]
        combine_requires_matching_template
          [of "Family_new template_a (OneDet det_a10)" "Family_new template_a (OneDet det_a0)"
              False det_b0]
  by (simp add: Family_new_def dets_of_arg_def template_a_def template_b_def det_b0_def)

section \<open>The invariant on template names\<close>

lemma family_inv_iadd:
  assumes "family_inv a" and "case x of OFamily b shared \<Rightarrow> family_inv b | _ \<Rightarrow> True"
    and "Family_iadd a x = Inr (r, s)"
  shows "family_inv r \<and> family_inv s"
  using assms
  by (cases x) (auto simp add: Family_iadd_family Family_iadd_detection Family_iadd_def
      family_inv_def Let_def split: if_splits)

text \<open>
  Claim C3, as amended: the constructor stores the Detections it is given without looking
  at their \<^verbatim>\<open>template_name\<close>, and \<^verbatim>\<open>+=\<close> with a Family compares the templates only. What
  holds is preservation: when the receiver and a Family operand both have every
  \<^verbatim>\<open>template_name\<close> equal to their template's name, so have the receiver and the result
  after \<^verbatim>\<open>+=\<close>, \<^verbatim>\<open>+\<close> and \<^verbatim>\<open>append\<close>; and a single Detection with another
  \<^verbatim>\<open>template_name\<close> is refused with \<^verbatim>\<open>NotImplementedError('Templates do not match')\<close>,
  whatever the receiver holds.
\<close>

theorem combine_preserves_template_names:
  "(family_inv a \<and> (case x of OFamily b shared \<Rightarrow> family_inv b | _ \<Rightarrow> True) \<longrightarrow>
      (Family_iadd a x = Inr (r, s) \<longrightarrow> family_inv r \<and> family_inv s) \<and>
      (Family_add a x = Inr (r, s) \<longrightarrow> family_inv r \<and> family_inv s) \<and>
      (Family_append a x = Inr (r, s) \<longrightarrow> family_inv r \<and> family_inv s)) \<and>
   (x = ODetection d \<and> template_name d \<noteq> name (template a) \<longrightarrow>
      Family_iadd a x = Inl (NotImplementedError ''Templates do not match'') \<and>
      Family_add a x = Inl (NotImplementedError ''Templates do not match'') \<and>
      Family_append a x = Inl (NotImplementedError ''Templates do not match''))"
proof -
  have i: "family_inv r \<and> family_inv s"
    if "family_inv a" "case x of OFamily b shared \<Rightarrow> family_inv b | _ \<Rightarrow> True"
      "Family_iadd a x = Inr (r, s)"
    using that by (rule family_inv_iadd)
  have u: "case unshared x of OFamily b shared \<Rightarrow> family_inv b | _ \<Rightarrow> True"
    if "case x of OFamily b shared \<Rightarrow> family_inv b | _ \<Rightarrow> True"
    using that by (cases x) simp_all
  have ad: "family_inv r \<and> family_inv s"
    if "family_inv a" "case x of OFamily b shared \<Rightarrow> family_inv b | _ \<Rightarrow> True"
      "Family_add a x = Inr (r, s)"
  proof (cases "Family_iadd a (unshared x)")
    case (Inl err)
    with that(3) show ?thesis
      by (simp add: Family_add_eq)
  next
    case (Inr p)
    obtain r' c where p: "p = (r', c)" by (cases p)
    from that(3) Inr p have "r = r'" and "s = a"
      by (simp_all add: Family_add_eq)
    moreover have "family_inv r'"
      using family_inv_iadd [OF that(1) u [OF that(2)]] Inr p by blast
    ultimately show ?thesis
      using that(1) by simp
  qed
  have ap: "family_inv r \<and> family_inv s"
    if "family_inv a" "case x of OFamily b shared \<Rightarrow> family_inv b | _ \<Rightarrow> True"
      "Family_append a x = Inr (r, s)"
    using ad [OF that(1,2)] that(3) by (simp add: Family_append_def)
  have e: "Family_iadd a x = Inl (NotImplementedError ''Templates do not match'') \<and>
      Family_add a x = Inl (NotImplementedError ''Templates do not match'') \<and>
      Family_append a x = Inl (NotImplementedError ''Templates do not match'')"
    if "x = ODetection d" "template_name d \<noteq> name (template a)"
    using that by (simp add: Family_iadd_detection Family_add_eq Family_append_def)
  from i ad ap e show ?thesis
    by blast
qed

theorem combine_preserves_template_names_witness:
  "family_inv (Family_new template_a (OneDet det_a0)) \<and>
   family_inv (Family_new template_a (OneDet det_a10)) \<and>
   Family_iadd (Family_new template_a (OneDet det_a0))
      (OFamily (Family_new template_a (OneDet det_a10)) False) =
     Inr (\<lparr>template = template_a, detections = [det_a0, det_a10], catalog_cache = []\<rparr>,
          \<lparr>template = template_a, detections = [det_a0, det_a10], catalog_cache = []\<rparr>) \<and>
   family_inv \<lparr>template = template_a, detections = [det_a0, det_a10], catalog_cache = []\<rparr> \<and>
   template_name det_b0 \<noteq> name (template (Family_new template_a (OneDet det_a0))) \<and>
   Family_append (Family_new template_a (OneDet det_a0)) (ODetection det_b0) =
     Inl (NotImplementedError ''Templates do not match'')"
  using combine_preserves_template_names
    [of "Family_new template_a (OneDet det_a0)"
        "OFamily (Family_new template_a (OneDet det_a10)) False"
        "\<lparr>template = template_a, detections = [det_a0, det_a10], catalog_cache = []\<rparr>"
        "\<lparr>template = template_a, detections = [det_a0, det_a10], catalog_cache = []\<rparr>" det_b0]
    combine_preserves_template_names
    [of "Family_new template_a (OneDet det_a0)" "ODetection det_b0"
        "Family_new template_a (OneDet det_a0)" "Family_new template_a (OneDet det_a0)" det_b0]
  by (simp add: Family_new_def dets_of_arg_def family_inv_def template_a_def det_a0_def
      det_a10_def det_b0_def Family_iadd_family get_catalog_def)

text \<open>
  Against the invariant for every constructed Family: the constructor, given the list of one Detection of template
  \<^verbatim>\<open>b\<close> for the template \<^verbatim>\<open>a\<close>, returns a Family that holds it.
\<close>

theorem constructor_accepts_foreign_detection:
  "Family_init template_a (DetList [det_b0]) None =
     Inr (Family_new template_a (DetList [det_b0]), []) \<and>
   \<not> family_inv (Family_new template_a (DetList [det_b0]))"
  by (simp add: Family_init_def Family_new_def dets_of_arg_def family_inv_def
      template_a_def det_b0_def)

section \<open>The derived catalog\<close>

lemma length_get_catalog:
  "list_all (\<lambda>d. event d \<noteq> None) ds \<Longrightarrow> length (get_catalog ds) = length ds"
  by (induction ds) (auto simp add: get_catalog_def)

text \<open>
  Claim C4, as amended: reading \<^verbatim>\<open>f.catalog\<close> returns the cached catalog when its length
  is the number of Detections and otherwise the catalog recomputed from the Detections,
  which becomes the cache; \<^verbatim>\<open>+=\<close> with a Detection, or with a Family whose Detection list
  is not the receiver's own list object, extends the cache by the catalog of what it
  adds. The catalog read has as many events as there are Detections when every Detection
  carries an event, and such a \<^verbatim>\<open>+=\<close> keeps the two lengths equal when every added
  Detection carries an event.
\<close>

theorem catalog_length_with_events:
  "fst (Family_catalog f) =
     (if length (catalog_cache f) = length (detections f) then catalog_cache f
      else get_catalog (detections f)) \<and>
   catalog_cache (snd (Family_catalog f)) = fst (Family_catalog f) \<and>
   (list_all (\<lambda>d. event d \<noteq> None) (detections f) \<longrightarrow>
      length (fst (Family_catalog f)) = length (detections f)) \<and>
   (Family_iadd f (OFamily b False) = Inr (r, s) \<longrightarrow>
      catalog_cache s = catalog_cache f @ get_catalog (detections b) \<and>
      (length (catalog_cache f) = length (detections f) \<and>
       list_all (\<lambda>d. event d \<noteq> None) (detections b) \<longrightarrow>
         length (catalog_cache s) = length (detections s))) \<and>
   (Family_iadd f (ODetection d) = Inr (r', s') \<longrightarrow>
      catalog_cache s' = catalog_cache f @ get_catalog [d] \<and>
      (length (catalog_cache f) = length (detections f) \<and> event d \<noteq> None \<longrightarrow>
         length (catalog_cache s') = length (detections s')))"
proof -
  have rd: "list_all (\<lambda>d. event d \<noteq> None) (detections f) \<Longrightarrow>
      length (fst (Family_catalog f)) = length (detections f)"
    by (simp add: Family_catalog_def length_get_catalog)
  have fam: "Family_iadd f (OFamily b False) = Inr (r, s) \<Longrightarrow>
      catalog_cache s = catalog_cache f @ get_catalog (detections b) \<and>
      detections s = detections f @ detections b"
    by (auto simp add: Family_iadd_family split: if_splits)
  have det: "Family_iadd f (ODetection d) = Inr (r', s') \<Longrightarrow>
      catalog_cache s' = catalog_cache f @ get_catalog [d] \<and>
      detections s' = detections f @ [d]"
    by (auto simp add: Family_iadd_detection split: if_splits)
  have one: "event d \<noteq> None \<Longrightarrow> length (get_catalog [d]) = 1"
    using length_get_catalog [of "[d]"] by simp
  show ?thesis
    using rd fam det one
    by (auto simp add: Family_catalog_def length_get_catalog)
qed

theorem catalog_length_with_events_witness:
  "list_all (\<lambda>d. event d \<noteq> None) (detections (Family_new template_a (OneDet det_e0))) \<and>
   fst (Family_catalog (Family_new template_a (OneDet det_e0))) = [event_0] \<and>
   Family_iadd (Family_new template_a (OneDet det_e0))
       (OFamily (Family_new template_a (OneDet det_e10)) False) =
     Inr (\<lparr>template = template_a, detections = [det_e0, det_e10],
            catalog_cache = [event_0, event_10]\<rparr>,
          \<lparr>template = template_a, detections = [det_e0, det_e10],
            catalog_cache = [event_0, event_10]\<rparr>) \<and>
   Family_iadd (Family_new template_a (OneDet det_e0)) (ODetection det_e10) =
     Inr (\<lparr>template = template_a, detections = [det_e0, det_e10],
            catalog_cache = [event_0, event_10]\<rparr>,
          \<lparr>template = template_a, detections = [det_e0, det_e10],
            catalog_cache = [event_0, event_10]\<rparr>) \<and>
   length (catalog_cache \<lparr>template = template_a, detections = [det_e0, det_e10],
            catalog_cache = [event_0, event_10]\<rparr>) =
     length (detections \<lparr>template = template_a, detections = [det_e0, det_e10],
            catalog_cache = [event_0, event_10]\<rparr>)"
  using catalog_length_with_events
    [of "Family_new template_a (OneDet det_e0)" "Family_new template_a (OneDet det_e10)"
        "\<lparr>template = template_a, detections = [det_e0, det_e10],
            catalog_cache = [event_0, event_10]\<rparr>"
        "\<lparr>template = template_a, detections = [det_e0, det_e10],
            catalog_cache = [event_0, event_10]\<rparr>"
        det_e10
        "\<lparr>template = template_a, detections = [det_e0, det_e10],
            catalog_cache = [event_0, event_10]\<rparr>"
        "\<lparr>template = template_a, detections = [det_e0, det_e10],
            catalog_cache = [event_0, event_10]\<rparr>"]
  by (simp add: Family_new_def dets_of_arg_def get_catalog_def Family_catalog_def
      Family_iadd_family Family_iadd_detection det_e0_def det_e10_def det_a0_def det_a10_def
      template_a_def)

text \<open>
  When the operand is the receiver itself, \<^verbatim>\<open>other.detections\<close> is the list that
  \<^verbatim>\<open>extend\<close> has just doubled: the cache of a Family of one Detection with an event
  grows to three events for two Detections, until the next read of \<^verbatim>\<open>catalog\<close>
  recomputes it.
\<close>

lemma iadd_shared_list_cache:
  "Family_iadd (Family_new template_a (OneDet det_e0))
       (OFamily (Family_new template_a (OneDet det_e0)) True) =
     Inr (\<lparr>template = template_a, detections = [det_e0, det_e0],
            catalog_cache = [event_0, event_0, event_0]\<rparr>,
          \<lparr>template = template_a, detections = [det_e0, det_e0],
            catalog_cache = [event_0, event_0, event_0]\<rparr>)"
  by (simp add: Family_new_def dets_of_arg_def get_catalog_def Family_iadd_family
      det_e0_def det_a0_def template_a_def)

text \<open>
  Against the length for every Family: the Family of the one Detection of the doctests,
  which carries no event, has one Detection and an empty catalog.
\<close>

theorem catalog_shorter_than_detections:
  "fst (Family_catalog (Family_new template_a (OneDet det_a0))) = [] \<and>
   length (detections (Family_new template_a (OneDet det_a0))) = 1"
  by (simp add: Family_catalog_def Family_new_def dets_of_arg_def get_catalog_def det_a0_def)

section \<open>Equality of families\<close>

lemma Detection_eq_refl: "0 \<le> tol \<Longrightarrow> Detection_eq tol d d"
  by (simp add: Detection_eq_def)

lemma length_get_catalog_swap: "length (get_catalog [A, B]) = length (get_catalog [B, A])"
  by (simp add: get_catalog_def split: option.splits)

lemma detections_Family_eq_catalog:
  "Family_eq_catalog s ot = (r, s', ot') \<Longrightarrow>
     detections s' = detections s \<and> detections ot' = detections ot"
  by (auto simp add: Family_eq_catalog_def Family_catalog_def split: if_splits prod.splits)

text \<open>
  Where the two Detections have different \<^verbatim>\<open>detect_time\<close>, both sorts give one order
  and the Family built from \<open>[A, B]\<close> equals the Family built from \<open>[B, A]\<close>. Where
  they share it, the stable sort keeps each list as it was inserted, and \<open>A\<close> is
  compared with \<open>B\<close> and \<open>B\<close> with \<open>A\<close>.
\<close>

lemma eq_pair_order:
  assumes "0 \<le> tol"
  shows "(detect_time A \<noteq> detect_time B \<longrightarrow>
            fst (Family_eq tol (Family_new t (DetList [A, B])) (Family_new t (DetList [B, A])))) \<and>
         (detect_time A = detect_time B \<longrightarrow>
            fst (Family_eq tol (Family_new t (DetList [A, B])) (Family_new t (DetList [B, A]))) =
              (Detection_eq tol A B \<and> Detection_eq tol B A))"
proof -
  have r: "Detection_eq tol A A" "Detection_eq tol B B"
    using assms by (simp_all add: Detection_eq_refl)
  have c: "length (get_catalog [A, B]) = length (get_catalog [B, A])"
    by (rule length_get_catalog_swap)
  have lt: "detect_time A < detect_time B \<Longrightarrow>
      fst (Family_eq tol (Family_new t (DetList [A, B])) (Family_new t (DetList [B, A])))"
    using r c
    by (simp add: Family_eq_def Family_sort_def Family_new_def dets_of_arg_def
        Family_eq_catalog_def Family_catalog_def Let_def)
  have gt: "detect_time B < detect_time A \<Longrightarrow>
      fst (Family_eq tol (Family_new t (DetList [A, B])) (Family_new t (DetList [B, A])))"
    using r c
    by (simp add: Family_eq_def Family_sort_def Family_new_def dets_of_arg_def
        Family_eq_catalog_def Family_catalog_def Let_def)
  have eq: "detect_time A = detect_time B \<Longrightarrow>
      fst (Family_eq tol (Family_new t (DetList [A, B])) (Family_new t (DetList [B, A]))) =
        (Detection_eq tol A B \<and> Detection_eq tol B A)"
    using c
    by (simp add: Family_eq_def Family_sort_def Family_new_def dets_of_arg_def
        Family_eq_catalog_def Family_catalog_def Let_def)
  show ?thesis
    using lt gt eq by (cases "detect_time A < detect_time B") auto
qed

text \<open>
  Claim C5 says that the Family built from \<open>[A, B]\<close> equals the Family built from
  \<open>[B, A]\<close> for every two Detections of the template, also when they share their
  \<^verbatim>\<open>detect_time\<close>. \<^verbatim>\<open>__eq__\<close> sorts both operands by \<^verbatim>\<open>detect_time\<close> before it compares
  them pairwise, and the sort does not order Detections of one \<^verbatim>\<open>detect_time\<close>: for two
  Detections of template \<^verbatim>\<open>a\<close> at time 0 that differ in \<^verbatim>\<open>no_chans\<close>, the two Families
  hold the same Detections and the comparison answers False.
\<close>

theorem eq_pair_same_time_order_sensitive:
  "template_name det_a0 = name template_a \<and> template_name det_a0_alt = name template_a \<and>
   detect_time det_a0 = detect_time det_a0_alt \<and>
   set (detections (Family_new template_a (DetList [det_a0, det_a0_alt]))) =
     set (detections (Family_new template_a (DetList [det_a0_alt, det_a0]))) \<and>
   \<not> fst (Family_eq (1 / 1000) (Family_new template_a (DetList [det_a0, det_a0_alt]))
            (Family_new template_a (DetList [det_a0_alt, det_a0])))"
  by (auto simp add: Family_eq_def Family_sort_def Family_new_def dets_of_arg_def
      Detection_eq_def det_a0_def det_a0_alt_def template_a_def)

text \<open>
  Claim C10: comparing two Families with equal templates and equal, non-zero numbers of
  Detections calls \<^verbatim>\<open>sort()\<close> on both: whatever the answer, both operands are left with
  their Detections sorted by \<^verbatim>\<open>detect_time\<close>, ascending.
\<close>

theorem eq_sorts_both_operands:
  assumes "template a = template b"
    and "length (detections a) = length (detections b)"
    and "detections a \<noteq> []"
    and "Family_eq tol a b = (r, a', b')"
  shows "detections a' = sort_key detect_time (detections a) \<and>
         detections b' = sort_key detect_time (detections b) \<and>
         sorted (map detect_time (detections a')) \<and>
         sorted (map detect_time (detections b'))"
proof -
  have nb: "detections b \<noteq> []"
    using assms(2,3) by auto
  let ?s = "Family_sort a" and ?o = "Family_sort b"
  have "(r, a', b') = (if list_all (\<lambda>(d, e). Detection_eq tol d e)
                            (zip (detections ?s) (detections ?o))
                       then Family_eq_catalog ?s ?o else (False, ?s, ?o))"
    using assms nb by (simp add: Family_eq_def Let_def)
  then have "detections a' = detections ?s \<and> detections b' = detections ?o"
    using detections_Family_eq_catalog [of ?s ?o r a' b']
    by (auto split: if_splits)
  then show ?thesis
    by (simp add: Family_sort_def)
qed

theorem eq_sorts_both_operands_witness:
  "template (Family_new template_a (DetList [det_a10, det_a0])) =
     template (Family_new template_a (DetList [det_a10, det_a10])) \<and>
   detections (Family_new template_a (DetList [det_a10, det_a0])) \<noteq> [det_a0, det_a10] \<and>
   Family_eq 0 (Family_new template_a (DetList [det_a10, det_a0]))
               (Family_new template_a (DetList [det_a10, det_a10])) =
     (False, \<lparr>template = template_a, detections = [det_a0, det_a10], catalog_cache = []\<rparr>,
             \<lparr>template = template_a, detections = [det_a10, det_a10], catalog_cache = []\<rparr>) \<and>
   detections \<lparr>template = template_a, detections = [det_a0, det_a10], catalog_cache = []\<rparr> =
     sort_key detect_time (detections (Family_new template_a (DetList [det_a10, det_a0])))"
  using eq_sorts_both_operands
    [of "Family_new template_a (DetList [det_a10, det_a0])"
        "Family_new template_a (DetList [det_a10, det_a10])" 0 False
        "\<lparr>template = template_a, detections = [det_a0, det_a10], catalog_cache = []\<rparr>"
        "\<lparr>template = template_a, detections = [det_a10, det_a10], catalog_cache = []\<rparr>"]
  by (simp add: Family_eq_def Family_sort_def Family_new_def dets_of_arg_def get_catalog_def
      Detection_eq_def det_a0_def det_a10_def)

section \<open>Assigning the catalog\<close>

text \<open>
  Claim C8, as amended: assigning to the \<^verbatim>\<open>catalog\<close> attribute raises
  \<^verbatim>\<open>NotImplementedError\<close>, whatever is assigned. A \<^verbatim>\<open>catalog\<close> argument of the
  constructor is not an error: the Family is built from the template and the Detections
  alone, its catalog is generated from the Detections, and a non-empty \<^verbatim>\<open>catalog\<close>
  argument is answered by a logged warning.
\<close>

theorem catalog_assignment:
  "Family_catalog_setter f c =
     Inl (NotImplementedError ''Setting catalog directly is no-longer supported'') \<and>
   Family_init t a cat =
     Inr (Family_new t a, if cat = None \<or> cat = Some [] then [] else [catalog_warning]) \<and>
   catalog_cache (Family_new t a) = get_catalog (dets_of_arg a)"
  by (simp add: Family_catalog_setter_def Family_init_def Family_new_def split: option.splits)

text \<open>
  Against an error at construction: the constructor, given a catalog of one event,
  returns the Family and logs a warning.
\<close>

theorem catalog_argument_not_refused:
  "Family_init template_a NoDets (Some [event_0]) =
     Inr (\<lparr>template = template_a, detections = [], catalog_cache = []\<rparr>, [catalog_warning])"
  by (simp add: Family_init_def Family_new_def dets_of_arg_def get_catalog_def)

section \<open>Writing the refined picks back\<close>

lemma set_picks_Inr:
  "set_picks i ps ds = Inr ds' \<Longrightarrow>
     \<exists>k e. k < length ds \<and> det_id (ds ! k) = i \<and> (\<forall>j<k. det_id (ds ! j) \<noteq> i) \<and>
        event (ds ! k) = Some e \<and>
        ds' = ds[k := (ds ! k)\<lparr>event := Some (e\<lparr>picks := ps\<rparr>)\<rparr>]"
proof (induction ds arbitrary: ds')
  case Nil
  then show ?case by simp
next
  case (Cons d ds)
  show ?case
  proof (cases "det_id d = i")
    case True
    with Cons.prems obtain e where "event d = Some e"
      and "ds' = d\<lparr>event := Some (e\<lparr>picks := ps\<rparr>)\<rparr> # ds"
      by (auto split: option.splits)
    with True show ?thesis
      by (intro exI [of _ 0] exI [of _ e]) simp
  next
    case False
    with Cons.prems obtain ds1 where s: "set_picks i ps ds = Inr ds1" and d: "ds' = d # ds1"
      by (auto split: sum.splits)
    from Cons.IH [OF s] obtain k e where k: "k < length ds" "det_id (ds ! k) = i"
      "\<forall>j<k. det_id (ds ! j) \<noteq> i" "event (ds ! k) = Some e"
      "ds1 = ds[k := (ds ! k)\<lparr>event := Some (e\<lparr>picks := ps\<rparr>)\<rparr>]"
      by blast
    have "\<forall>j<Suc k. det_id ((d # ds) ! j) \<noteq> i"
      using False k(3) by (auto simp add: less_Suc_eq_0_disj)
    with k d show ?thesis
      by (intro exI [of _ "Suc k"] exI [of _ e]) simp
  qed
qed

lemma set_picks_returns:
  "(\<exists>ds'. set_picks i ps ds = Inr ds') = pickable ds i"
  by (induction ds) (auto simp add: pickable_def split: option.splits sum.splits)

lemma pickable_set_picks:
  "set_picks i ps ds = Inr ds' \<Longrightarrow> pickable ds' i' = pickable ds i'"
  by (induction ds arbitrary: ds')
     (auto simp add: pickable_def split: option.splits sum.splits if_splits)

text \<open>The loop returns exactly when every id of the dictionary is that of a Detection
  whose first occurrence carries an event.\<close>

lemma update_picks_returns:
  "(\<exists>ds'. update_picks pp ds pd = Inr ds') = list_all (pickable ds) (map fst pd)"
proof (induction pd arbitrary: ds)
  case Nil
  then show ?case by simp
next
  case (Cons p rest)
  obtain i ev where p: "p = (i, ev)" by (cases p)
  show ?case
  proof (cases "set_picks i (correct_picks pp ev) ds")
    case (Inl err)
    then have "\<not> pickable ds i"
      using set_picks_returns [of i "correct_picks pp ev" ds] by simp
    with Inl p show ?thesis by simp
  next
    case (Inr ds1)
    then have "pickable ds i"
      using set_picks_returns [of i "correct_picks pp ev" ds] by auto
    moreover have "list_all (pickable ds1) (map fst rest) = list_all (pickable ds) (map fst rest)"
      using pickable_set_picks [OF Inr] by (simp add: list_all_iff)
    ultimately show ?thesis
      using Inr p Cons.IH [of ds1] by simp
  qed
qed

text \<open>
  What the loop leaves, by induction on the items of the dictionary: a step rewrites one
  position, the ids stay where they are, and the keys of a dictionary are distinct, so
  no later step touches that position again.
\<close>

lemma update_picks_Inr:
  assumes "update_picks pp ds pd = Inr ds'" and "distinct (map fst pd)"
  shows "length ds' = length ds \<and> map det_id ds' = map det_id ds \<and>
     (\<forall>(i, ev) \<in> set pd. \<exists>k e. k < length ds \<and> det_id (ds ! k) = i \<and>
         (\<forall>j<k. det_id (ds ! j) \<noteq> i) \<and> event (ds ! k) = Some e \<and>
         ds' ! k = (ds ! k)\<lparr>event := Some (e\<lparr>picks := correct_picks pp ev\<rparr>)\<rparr>) \<and>
     (\<forall>k<length ds. det_id (ds ! k) \<notin> fst ` set pd \<or>
                     (\<exists>j<k. det_id (ds ! j) = det_id (ds ! k)) \<longrightarrow> ds' ! k = ds ! k)"
  using assms
proof (induction pd arbitrary: ds)
  case Nil
  then show ?case by simp
next
  case (Cons p rest)
  obtain i ev where p: "p = (i, ev)" by (cases p)
  from Cons.prems p obtain ds1 where
    s: "set_picks i (correct_picks pp ev) ds = Inr ds1" and u: "update_picks pp ds1 rest = Inr ds'"
    by (auto split: sum.splits)
  from set_picks_Inr [OF s] obtain k0 e0 where k0: "k0 < length ds" "det_id (ds ! k0) = i"
    "\<forall>j<k0. det_id (ds ! j) \<noteq> i" "event (ds ! k0) = Some e0"
    "ds1 = ds[k0 := (ds ! k0)\<lparr>event := Some (e0\<lparr>picks := correct_picks pp ev\<rparr>)\<rparr>]"
    by blast
  have len1: "length ds1 = length ds"
    using k0(5) by simp
  have ids1: "det_id (ds1 ! k) = det_id (ds ! k)" if "k < length ds" for k
    using k0(1,5) that by (cases "k = k0") simp_all
  have same1: "ds1 ! k = ds ! k" if "k \<noteq> k0" for k
    using k0(5) that by simp
  have dist: "distinct (map fst rest)" and inot: "i \<notin> fst ` set rest"
    using Cons.prems(2) p by auto
  note IH = Cons.IH [OF u dist]
  have len: "length ds' = length ds"
    using IH len1 by simp
  have ids: "map det_id ds' = map det_id ds"
  proof -
    have "map det_id ds1 = map det_id ds"
      using len1 ids1 by (auto simp add: list_eq_iff_nth_eq)
    with IH show ?thesis by simp
  qed
  have keep: "ds' ! k = ds1 ! k"
    if "k < length ds"
      "det_id (ds ! k) \<notin> fst ` set rest \<or> (\<exists>j<k. det_id (ds ! j) = det_id (ds ! k))" for k
  proof -
    have "det_id (ds1 ! k) \<notin> fst ` set rest \<or> (\<exists>j<k. det_id (ds1 ! j) = det_id (ds1 ! k))"
      using that ids1 by (metis less_trans)
    with IH that(1) len1 show ?thesis by simp
  qed
  have head: "\<exists>k e. k < length ds \<and> det_id (ds ! k) = i \<and>
         (\<forall>j<k. det_id (ds ! j) \<noteq> i) \<and> event (ds ! k) = Some e \<and>
         ds' ! k = (ds ! k)\<lparr>event := Some (e\<lparr>picks := correct_picks pp ev\<rparr>)\<rparr>"
  proof -
    have "ds' ! k0 = ds1 ! k0"
      using keep [of k0] k0(1,2) inot by simp
    then have "ds' ! k0 = (ds ! k0)\<lparr>event := Some (e0\<lparr>picks := correct_picks pp ev\<rparr>)\<rparr>"
      using k0(1,5) by simp
    with k0 show ?thesis by blast
  qed
  have tail: "\<exists>k e. k < length ds \<and> det_id (ds ! k) = i' \<and>
         (\<forall>j<k. det_id (ds ! j) \<noteq> i') \<and> event (ds ! k) = Some e \<and>
         ds' ! k = (ds ! k)\<lparr>event := Some (e\<lparr>picks := correct_picks pp ev'\<rparr>)\<rparr>"
    if "(i', ev') \<in> set rest" for i' ev'
  proof -
    from IH that obtain k e where k: "k < length ds1" "det_id (ds1 ! k) = i'"
      "\<forall>j<k. det_id (ds1 ! j) \<noteq> i'" "event (ds1 ! k) = Some e"
      "ds' ! k = (ds1 ! k)\<lparr>event := Some (e\<lparr>picks := correct_picks pp ev'\<rparr>)\<rparr>"
      by blast
    have "i' \<noteq> i"
      using that inot by force
    then have "k \<noteq> k0"
      using k(1,2) k0(2) ids1 len1 by auto
    then have "ds1 ! k = ds ! k"
      by (rule same1)
    moreover have "\<forall>j<k. det_id (ds ! j) \<noteq> i'"
      using k(1,3) ids1 len1 by (metis less_trans)
    ultimately show ?thesis
      using k len1 by (intro exI [of _ k] exI [of _ e]) simp
  qed
  have frame: "ds' ! k = ds ! k"
    if "k < length ds"
      "det_id (ds ! k) \<notin> fst ` set (p # rest) \<or> (\<exists>j<k. det_id (ds ! j) = det_id (ds ! k))"
    for k
  proof -
    have "k \<noteq> k0"
      using that(2) k0(2,3) p by auto
    moreover have "ds' ! k = ds1 ! k"
      using keep [of k] that by auto
    ultimately show ?thesis
      using same1 by simp
  qed
  show ?case
    using len ids head tail frame p by auto
qed

text \<open>
  Claim C9: \<^verbatim>\<open>lag_calc\<close> returns exactly when every id of the refiner's output is the id
  of a Detection whose first occurrence carries an event. When it has returned, for
  every id of the refiner's output the Detection with that id (the first one, should
  several share it) has the picks of its event replaced by the refined picks, each pick
  time increased by the template's \<^verbatim>\<open>prepick\<close> once; and every Detection whose id is not
  in the refiner's output is what it was.
\<close>

theorem lag_calc_updates_picks:
  assumes "distinct (map fst picked_dict)"
  shows "((\<exists>cat f'. Family_lag_calc f picked_dict = Inr (cat, f')) =
            list_all (pickable (detections f)) (map fst picked_dict)) \<and>
         (Family_lag_calc f picked_dict = Inr (cat, f') \<longrightarrow>
            template f' = template f \<and>
            length (detections f') = length (detections f) \<and>
            (\<forall>(i, ev) \<in> set picked_dict.
               \<exists>k e. k < length (detections f) \<and> det_id (detections f ! k) = i \<and>
                  (\<forall>j<k. det_id (detections f ! j) \<noteq> i) \<and>
                  event (detections f ! k) = Some e \<and>
                  detections f' ! k =
                    (detections f ! k)\<lparr>event := Some (e\<lparr>picks :=
                       map (\<lambda>p. p\<lparr>pick_time := pick_time p + prepick (template f)\<rparr>)
                         (picks ev)\<rparr>)\<rparr>) \<and>
            (\<forall>k<length (detections f).
               det_id (detections f ! k) \<notin> fst ` set picked_dict \<longrightarrow>
                 detections f' ! k = detections f ! k))"
proof -
  have ret: "(\<exists>cat f'. Family_lag_calc f picked_dict = Inr (cat, f')) =
      list_all (pickable (detections f)) (map fst picked_dict)"
    using update_picks_returns [of "prepick (template f)" "detections f" picked_dict]
    by (auto simp add: Family_lag_calc_def split: sum.splits)
  have upd: "template f' = template f \<and>
            length (detections f') = length (detections f) \<and>
            (\<forall>(i, ev) \<in> set picked_dict.
               \<exists>k e. k < length (detections f) \<and> det_id (detections f ! k) = i \<and>
                  (\<forall>j<k. det_id (detections f ! j) \<noteq> i) \<and>
                  event (detections f ! k) = Some e \<and>
                  detections f' ! k =
                    (detections f ! k)\<lparr>event := Some (e\<lparr>picks :=
                       map (\<lambda>p. p\<lparr>pick_time := pick_time p + prepick (template f)\<rparr>)
                         (picks ev)\<rparr>)\<rparr>) \<and>
            (\<forall>k<length (detections f).
               det_id (detections f ! k) \<notin> fst ` set picked_dict \<longrightarrow>
                 detections f' ! k = detections f ! k)"
    if r: "Family_lag_calc f picked_dict = Inr (cat, f')"
  proof -
    from r obtain ds where
      u: "update_picks (prepick (template f)) (detections f) picked_dict = Inr ds"
      and f': "f' = f\<lparr>detections := ds\<rparr>"
      by (auto simp add: Family_lag_calc_def split: sum.splits)
    from update_picks_Inr [OF u assms] f' show ?thesis
      by (simp add: correct_picks_def)
  qed
  from ret upd show ?thesis by blast
qed

theorem lag_calc_updates_picks_witness:
  "distinct (map fst [(''a_19700101_000010000000'', event_refined)]) \<and>
   list_all (pickable (detections (Family_new template_p (DetList [det_e0, det_e10]))))
      (map fst [(''a_19700101_000010000000'', event_refined)]) \<and>
   Family_lag_calc (Family_new template_p (DetList [det_e0, det_e10]))
       [(''a_19700101_000010000000'', event_refined)] =
     Inr ([event_refined\<lparr>picks := [pick_z\<lparr>pick_time := 10.75\<rparr>]\<rparr>],
          \<lparr>template = template_p,
           detections =
             [det_e0,
              det_e10\<lparr>event := Some (event_10\<lparr>picks := [pick_z\<lparr>pick_time := 10.75\<rparr>]\<rparr>)\<rparr>],
           catalog_cache = [event_0, event_10]\<rparr>)"
  using lag_calc_updates_picks
    [of "[(''a_19700101_000010000000'', event_refined)]"
        "Family_new template_p (DetList [det_e0, det_e10])"
        "[event_refined\<lparr>picks := [pick_z\<lparr>pick_time := 10.75\<rparr>]\<rparr>]"
        "\<lparr>template = template_p,
           detections =
             [det_e0,
              det_e10\<lparr>event := Some (event_10\<lparr>picks := [pick_z\<lparr>pick_time := 10.75\<rparr>]\<rparr>)\<rparr>],
           catalog_cache = [event_0, event_10]\<rparr>"]
  by (simp add: Family_lag_calc_def Family_new_def dets_of_arg_def get_catalog_def
      pickable_def correct_picks_def template_p_def template_a_def det_e0_def det_e10_def
      det_a0_def det_a10_def event_refined_def pick_z_def)

section \<open>Python strings\<close>

text \<open>The defining equations of the two recursions hold without a condition: they are
  unfolded by hand.\<close>

declare py_split.simps [simp del]

declare str_nat.simps [simp del]

lemma py_split_Nil [simp]: "py_split sep [] = [[]]"
  by (subst py_split.simps) simp

lemma py_split_empty_sep: "py_split [] s = [s]"
  by (subst py_split.simps) simp

lemma py_split_Cons:
  "sep \<noteq> [] \<Longrightarrow> py_split sep (x # xs) =
     (if take (length sep) (x # xs) = sep then [] # py_split sep (drop (length sep) (x # xs))
      else (case py_split sep xs of [] \<Rightarrow> [[x]] | w # ws \<Rightarrow> (x # w) # ws))"
  by (subst py_split.simps) (auto split: list.splits)

lemma py_split_not_Nil: "py_split sep s \<noteq> []"
proof (cases "sep = []")
  case True
  then show ?thesis by (simp add: py_split_empty_sep)
next
  case False
  then show ?thesis
    by (induction s) (auto simp add: py_split_Cons split: list.splits)
qed



















section \<open>A line of the flat format, written and read\<close>

















section \<open>The round trip through the flat format\<close>













section \<open>A line that names an event\<close>

lemma read_item_event_empty: "read_item lib [] ''event'' v state = Inr (fst state, True)"
  by (simp add: read_item_def Let_def)

lemma read_item_flag:
  "key \<noteq> ''event'' \<Longrightarrow>
     read_item lib all_cat key v (dd, g) =
       (case read_item lib all_cat key v (dd, False) of
          Inl err \<Rightarrow> Inl err
        | Inr state \<Rightarrow> Inr (fst state, g))"
  by (cases "utc_of_text lib v"; cases "literal_eval lib v"; cases "float_of_text lib v")
     (simp_all add: read_item_def Let_def)

lemma read_item_flag_False:
  assumes "key \<noteq> ''event''" and "read_item lib all_cat key v (dd, False) = Inr state"
  shows "snd state = False"
proof -
  have "Inr state = (Inr (fst state, False) :: error + ((string \<times> pyval) list \<times> bool))"
    using read_item_flag [OF assms(1), of lib all_cat v dd False] assms(2) by simp
  then show ?thesis
    by (metis old.sum.inject(2) snd_conv)
qed

lemma read_pairs_empty_catalog:
  "read_pairs lib [] kps (dd, g) =
     (case read_pairs lib [] (filter (\<lambda>kp. pair_key kp \<noteq> ''event'') kps) (dd, False) of
        Inl err \<Rightarrow> Inl err
      | Inr state \<Rightarrow> Inr (fst state, g \<or> list_ex (\<lambda>kp. pair_key kp = ''event'') kps))"
proof (induction kps arbitrary: dd g)
  case Nil
  then show ?case by simp
next
  case (Cons kp kps)
  show ?case
  proof (cases "pair_key kp = ''event''")
    case True
    then have "read_pair lib [] kp (dd, g) = Inr (dd, True)"
      by (simp add: read_pair_def read_item_event_empty)
    with True Cons.IH [of dd True] show ?thesis
      by (simp split: sum.splits)
  next
    case False
    show ?thesis
    proof (cases "read_item lib [] (pair_key kp) (pair_value kp) (dd, False)")
      case (Inl err)
      with False show ?thesis
        using read_item_flag [OF False, of lib "[]" "pair_value kp" dd g]
        by (simp add: read_pair_def)
    next
      case (Inr state)
      obtain dd1 g1 where st: "state = (dd1, g1)" by (cases state)
      have g1: "g1 = False"
        using read_item_flag_False [OF False Inr] st by simp
      have "read_pair lib [] kp (dd, g) = Inr (dd1, g)"
        using read_item_flag [OF False, of lib "[]" "pair_value kp" dd g] Inr st
        by (simp add: read_pair_def)
      moreover have "read_pair lib [] kp (dd, False) = Inr (dd1, False)"
        using Inr st g1 by (simp add: read_pair_def)
      ultimately show ?thesis
        using False Cons.IH [of dd1 g] by (simp split: sum.splits)
    qed
  qed
qed

lemma read_item_no_IndexError: "read_item lib [] key v state \<noteq> Inl IndexError"
  by (cases "utc_of_text lib v"; cases "literal_eval lib v"; cases "float_of_text lib v")
     (simp_all add: read_item_def Let_def)

lemma read_pairs_no_IndexError: "read_pairs lib [] kps state \<noteq> Inl IndexError"
  by (induction kps arbitrary: state)
     (auto simp add: read_pair_def read_item_no_IndexError split: sum.splits)

lemma Detection_init_no_IndexError: "Detection_init lib kw \<noteq> Inl IndexError"
  by (simp add: Detection_init_def split: option.splits)

text \<open>
  Claim C7, as amended: when the supplied catalog is empty, the key \<^verbatim>\<open>event\<close> of a line
  never fails the read. The line is read as the same line without its \<^verbatim>\<open>event\<close> key
  pairs, and the Detection built from it then gets the event \<^verbatim>\<open>_calculate_event\<close>
  synthesizes from the template with \<^verbatim>\<open>correct_prepick=True\<close>: its origin is marked
  estimated as the caller's \<^verbatim>\<open>estimate_origin\<close> says, and the pre-pick offset is added to
  its pick times.
\<close>

theorem read_event_key_empty_catalog:
  "read_line lib [] tmpl est line \<noteq> Inl IndexError \<and>
   read_line lib [] tmpl est line =
     (case read_pairs lib []
             (filter (\<lambda>kp. pair_key kp \<noteq> ''event'') (py_split '';'' (py_rstrip line)))
             ([], False) of
        Inl err \<Rightarrow> Inl err
      | Inr state \<Rightarrow>
          (case Detection_init lib (fst state) of
             Inl err \<Rightarrow> Inl err
           | Inr d \<Rightarrow>
               Inr (if list_ex (\<lambda>kp. pair_key kp = ''event'') (py_split '';'' (py_rstrip line))
                    then calculate_event tmpl est True d else d))) \<and>
   event (calculate_event tmpl est True d) =
     Some \<lparr>resource_id = det_id d,
           picks = map (\<lambda>tr. \<lparr>pick_time = detect_time d + prepick tmpl,
                               pick_chan = (station tr, channel tr)\<rparr>) (st tmpl),
           origin_estimated = est\<rparr>"
proof -
  have a: "read_line lib [] tmpl est line \<noteq> Inl IndexError"
    using read_pairs_no_IndexError [of lib "py_split '';'' (py_rstrip line)" "([], False)"]
      Detection_init_no_IndexError [of lib]
    by (auto simp add: read_line_def split: sum.splits prod.splits)
  have b: "read_line lib [] tmpl est line =
     (case read_pairs lib []
             (filter (\<lambda>kp. pair_key kp \<noteq> ''event'') (py_split '';'' (py_rstrip line)))
             ([], False) of
        Inl err \<Rightarrow> Inl err
      | Inr state \<Rightarrow>
          (case Detection_init lib (fst state) of
             Inl err \<Rightarrow> Inl err
           | Inr d \<Rightarrow>
               Inr (if list_ex (\<lambda>kp. pair_key kp = ''event'') (py_split '';'' (py_rstrip line))
                    then calculate_event tmpl est True d else d)))"
    unfolding read_line_def
    by (subst read_pairs_empty_catalog) (simp split: sum.splits prod.splits)
  have c: "event (calculate_event tmpl est True d) =
     Some \<lparr>resource_id = det_id d,
           picks = map (\<lambda>tr. \<lparr>pick_time = detect_time d + prepick tmpl,
                               pick_chan = (station tr, channel tr)\<rparr>) (st tmpl),
           origin_estimated = est\<rparr>"
    by (simp add: calculate_event_def)
  from a b c show ?thesis by blast
qed

theorem read_event_key_empty_catalog_witness:
  "list_ex (\<lambda>kp. pair_key kp = ''event'')
     (py_split '';'' (py_rstrip (det_str (field_texts lib_doctest det_e10)))) \<and>
   read_line lib_doctest [] template_s True (det_str (field_texts lib_doctest det_e10)) =
     Inr (calculate_event template_s True True det_a10) \<and>
   event (calculate_event template_s True True det_a10) =
     Some \<lparr>resource_id = ''a_19700101_000010000000'',
           picks = [\<lparr>pick_time = 10.5, pick_chan = (''STA'', ''EHZ'')\<rparr>],
           origin_estimated = True\<rparr>"
proof -
  have a: "list_ex (\<lambda>kp. pair_key kp = ''event'')
     (py_split '';'' (py_rstrip (det_str (field_texts lib_doctest det_e10))))"
    by code_simp
  have b: "read_line lib_doctest [] template_s True (det_str (field_texts lib_doctest det_e10)) =
     Inr (calculate_event template_s True True det_a10)"
    by code_simp
  have c: "prepick template_s = 0.5 \<and> detect_time det_a10 = 10 \<and>
      det_id det_a10 = ''a_19700101_000010000000'' \<and>
      st template_s = [\<lparr>station = ''STA'', channel = ''EHZ'', starttime = 0, samples = []\<rparr>]"
    by (simp add: template_s_def template_a_def det_a10_def)
  from read_event_key_empty_catalog
         [of lib_doctest template_s True "det_str (field_texts lib_doctest det_e10)" det_a10]
       a b c
  show ?thesis by simp
qed

text \<open>
  Against recovery for every supplied catalog: the line written for a Detection whose
  event has the identifier \<^verbatim>\<open>a_19700101_000010000000\<close>, read with a catalog of one
  event of another identifier, raises \<^verbatim>\<open>IndexError\<close>.
\<close>

theorem read_event_key_missing_from_catalog:
  "read_family lib_doctest
     (write_family lib_doctest (Family_new template_a (OneDet det_e10)))
     [event_0] template_a True = Inl IndexError"
  by code_simp

end
